theory Spec2Isabelle
  imports Main "HOL-Library.Word"
begin

section \<open>JavaScript values used by the front end\<close>

text \<open>
  The front end (\<^verbatim>\<open>frontend/src/App.jsx\<close>) is a single React component. Its state is a
  set of \<^verbatim>\<open>useState\<close> cells, its operations are event handlers that read the cells,
  talk to the server with \<^verbatim>\<open>fetch\<close> and write the cells back.

  A JavaScript string is a sequence of UTF-16 code units; \<open>js\<close> embeds an ASCII literal.
\<close>

type_synonym jsstring = "16 word list"

definition js :: "string \<Rightarrow> jsstring" where
  "js s = map of_char s"

text \<open>
  Values as \<^verbatim>\<open>JSON.parse\<close> produces them, plus \<^verbatim>\<open>undefined\<close> (what reading a missing
  property gives). Numbers are kept as integers: no operation below computes with them,
  only their truthiness (\<open>0\<close> is falsy) and their decimal text are used. An object is the
  list of its own properties.
\<close>

datatype jsval =
    JUndefined
  | JNull
  | JBool bool
  | JNum int
  | JStr jsstring
  | JArr "jsval list"
  | JObj "(jsstring \<times> jsval) list"

fun truthy :: "jsval \<Rightarrow> bool" where
  "truthy JUndefined = False"
| "truthy JNull = False"
| "truthy (JBool b) = b"
| "truthy (JNum n) = (n \<noteq> 0)"
| "truthy (JStr s) = (s \<noteq> [])"
| "truthy (JArr xs) = True"
| "truthy (JObj kvs) = True"

text \<open>\<^verbatim>\<open>a || b\<close>\<close>

definition js_or :: "jsval \<Rightarrow> jsval \<Rightarrow> jsval" where
  "js_or a b = (if truthy a then a else b)"

text \<open>Thrown values: every fault in this component is an \<^verbatim>\<open>Error\<close> object with a message.\<close>

datatype js_error = Error jsstring | TypeError jsstring | SyntaxError jsstring

fun message :: "js_error \<Rightarrow> jsstring" where
  "message (Error m) = m"
| "message (TypeError m) = m"
| "message (SyntaxError m) = m"

text \<open>
  \<^verbatim>\<open>v.p\<close> for the property names this component reads (\<^verbatim>\<open>raw_text\<close>, \<^verbatim>\<open>requirements\<close>,
  \<^verbatim>\<open>test_cases\<close>, \<^verbatim>\<open>status\<close>, \<^verbatim>\<open>message\<close>, \<^verbatim>\<open>priority\<close>, \<^verbatim>\<open>type\<close>,
  \<^verbatim>\<open>automation_status\<close>): none of them is inherited from a prototype, so a primitive or
  an array gives \<^verbatim>\<open>undefined\<close>, an object gives its own property, and \<^verbatim>\<open>null\<close> and
  \<^verbatim>\<open>undefined\<close> throw a TypeError (the message text is the engine's).
\<close>

definition cannot_read :: "jsstring \<Rightarrow> jsstring \<Rightarrow> js_error" where
  "cannot_read what p =
     TypeError (js ''Cannot read properties of '' @ what @ js '' (reading '' @ [0x27] @ p @ [0x27] @ js '')'')"

fun get_prop :: "jsval \<Rightarrow> jsstring \<Rightarrow> js_error + jsval" where
  "get_prop JUndefined p = Inl (cannot_read (js ''undefined'') p)"
| "get_prop JNull p = Inl (cannot_read (js ''null'') p)"
| "get_prop (JObj kvs) p = Inr (case map_of kvs p of None \<Rightarrow> JUndefined | Some v \<Rightarrow> v)"
| "get_prop (JBool b) p = Inr JUndefined"
| "get_prop (JNum n) p = Inr JUndefined"
| "get_prop (JStr s) p = Inr JUndefined"
| "get_prop (JArr xs) p = Inr JUndefined"

subsection \<open>Strings\<close>

text \<open>
  \<^verbatim>\<open>String.prototype.trim\<close> removes the code units that ECMAScript calls WhiteSpace or
  LineTerminator from both ends.
\<close>

definition isWhiteSpace :: "16 word \<Rightarrow> bool" where
  "isWhiteSpace c \<longleftrightarrow>
     c \<in> set [0x0009, 0x000A, 0x000B, 0x000C, 0x000D, 0x0020, 0x00A0, 0x1680,
              0x2000, 0x2001, 0x2002, 0x2003, 0x2004, 0x2005, 0x2006, 0x2007,
              0x2008, 0x2009, 0x200A, 0x2028, 0x2029, 0x202F, 0x205F, 0x3000, 0xFEFF]"

definition trim :: "jsstring \<Rightarrow> jsstring" where
  "trim s = rev (dropWhile isWhiteSpace (rev (dropWhile isWhiteSpace s)))"

text \<open>\<^verbatim>\<open>s.split(d)\<close> for a separator of one code unit.\<close>

fun split :: "16 word \<Rightarrow> jsstring \<Rightarrow> jsstring list" where
  "split d [] = [[]]"
| "split d (c # cs) =
     (if c = d then [] # split d cs
      else (case split d cs of [] \<Rightarrow> [[c]] | r # rs \<Rightarrow> (c # r) # rs))"

text \<open>
  \<^verbatim>\<open>toUpperCase\<close> on the letters a to z; the component applies it to the export format
  names only, which are ASCII literals.
\<close>

definition toUpperCase :: "jsstring \<Rightarrow> jsstring" where
  "toUpperCase s = map (\<lambda>c. if 0x61 \<le> c \<and> c \<le> 0x7A then c - 0x20 else c) s"

section \<open>Component state\<close>

text \<open>An uploaded file: its name and its bytes.\<close>

record file_obj =
  file_name :: jsstring
  file_bytes :: "8 word list"

text \<open>
  One field per \<^verbatim>\<open>useState\<close> cell (\<open>file_cell\<close> is the cell \<^verbatim>\<open>file\<close>).
  \<open>rawText\<close>, \<open>requirements\<close> and \<open>testCases\<close> hold whatever the server's JSON put
  there. \<open>expandedRows\<close> is an object used as a map from
  row key to boolean.
\<close>

record app_state =
  file_cell :: "file_obj option"
  rawText :: jsval
  requirements :: jsval
  activeTab :: int
  appLink :: jsstring
  prototypeLink :: jsstring
  diagramLinks :: jsstring
  imageLinks :: jsstring
  templateName :: jsstring
  templateFormat :: jsstring
  testCases :: jsval
  jiraProject :: jsstring
  jiraIssueType :: jsstring
  status :: jsstring
  feedback :: jsstring
  reqFeedback :: jsstring
  expandedRows :: "jsstring \<rightharpoonup> bool"
  isGenerating :: bool
  isParsing :: bool
  isExporting :: bool
  exportFormat :: jsstring

definition initial_state :: app_state where
  "initial_state =
     \<lparr> file_cell = None, rawText = JStr [], requirements = JArr [], activeTab = 0,
       appLink = [], prototypeLink = [], diagramLinks = [], imageLinks = [],
       templateName = js ''default'', templateFormat = js ''table'',
       testCases = JArr [], jiraProject = [], jiraIssueType = js ''Test'',
       status = [], feedback = [], reqFeedback = [], expandedRows = Map.empty,
       isGenerating = False, isParsing = False, isExporting = False,
       exportFormat = js ''csv'' \<rparr>"

section \<open>Row expansion\<close>

text \<open>
  \<^verbatim>\<open>setExpandedRows(prev => ({ ...prev, [id]: !prev[id] }))\<close>. The argument here is the
  property key JavaScript derives from the id (a string id is its own key). Reading
  \<^verbatim>\<open>prev[id]\<close> for a key that is not an own property falls through to
  \<^verbatim>\<open>Object.prototype\<close>, whose members are truthy; every other missing key reads as
  \<^verbatim>\<open>undefined\<close>. The stored values are booleans, since the object starts empty and
  this is its only writer.
\<close>

definition object_prototype_names :: "jsstring list" where
  "object_prototype_names =
     map js [''constructor'', ''__proto__'', ''hasOwnProperty'', ''isPrototypeOf'',
             ''propertyIsEnumerable'', ''toLocaleString'', ''toString'', ''valueOf'',
             ''__defineGetter__'', ''__defineSetter__'', ''__lookupGetter__'',
             ''__lookupSetter__'']"

text \<open>The truthiness of \<^verbatim>\<open>rows[id]\<close>, which is also what the table reads to draw a row.\<close>

definition expanded :: "(jsstring \<rightharpoonup> bool) \<Rightarrow> jsstring \<Rightarrow> bool" where
  "expanded rows k =
     (case rows k of Some b \<Rightarrow> b | None \<Rightarrow> k \<in> set object_prototype_names)"

definition toggleRowExpansion :: "jsstring \<Rightarrow> app_state \<Rightarrow> app_state" where
  "toggleRowExpansion k s =
     s\<lparr>expandedRows := (expandedRows s)(k \<mapsto> \<not> expanded (expandedRows s) k)\<rparr>"

section \<open>Tab navigation\<close>

record tab =
  tab_id :: int
  tab_label :: jsstring
  tab_title :: jsstring

definition tabs :: "tab list" where
  "tabs =
     [\<lparr>tab_id = 0, tab_label = js ''Upload'', tab_title = js ''Upload Requirements''\<rparr>,
      \<lparr>tab_id = 1, tab_label = js ''Context'', tab_title = js ''Context Inputs''\<rparr>,
      \<lparr>tab_id = 2, tab_label = js ''Template'', tab_title = js ''Template Setup''\<rparr>,
      \<lparr>tab_id = 3, tab_label = js ''Generate'', tab_title = js ''Generate Test Cases''\<rparr>,
      \<lparr>tab_id = 4, tab_label = js ''Export'', tab_title = js ''Export Test Cases''\<rparr>,
      \<lparr>tab_id = 5, tab_label = js ''Automation'', tab_title = js ''Playwright POM''\<rparr>]"

definition goNext :: "app_state \<Rightarrow> app_state" where
  "goNext s = s\<lparr>activeTab := min (activeTab s + 1) (int (length tabs) - 1)\<rparr>"

definition goPrev :: "app_state \<Rightarrow> app_state" where
  "goPrev s = s\<lparr>activeTab := max (activeTab s - 1) 0\<rparr>"

text \<open>The \<^verbatim>\<open>onClick\<close> of the button drawn for one entry of \<open>tabs\<close>.\<close>

definition clickTab :: "tab \<Rightarrow> app_state \<Rightarrow> app_state" where
  "clickTab t s = s\<lparr>activeTab := tab_id t\<rparr>"

text \<open>
  A navigation event: one of the two panel buttons, or a click on the \<open>i\<close>-th button of
  the tab bar. The bar has one button per entry of \<open>tabs\<close>, so a position beyond it is
  no event at all.
\<close>

datatype nav = GoNext | GoPrev | TabClick nat

fun nav_step :: "app_state \<Rightarrow> nav \<Rightarrow> app_state" where
  "nav_step s GoNext = goNext s"
| "nav_step s GoPrev = goPrev s"
| "nav_step s (TabClick i) = (if i < length tabs then clickTab (tabs ! i) s else s)"

definition navigate :: "nav list \<Rightarrow> app_state" where
  "navigate es = foldl nav_step initial_state es"

section \<open>Text of a value\<close>

text \<open>
  What a template literal \<^verbatim>\<open>`${v}`\<close> puts in the string. An array is the text of its
  elements joined by commas (\<^verbatim>\<open>null\<close> and \<^verbatim>\<open>undefined\<close> elements are empty); a
  parsed object is \<^verbatim>\<open>[object Object]\<close>, unless it has an own property \<^verbatim>\<open>toString\<close>,
  which hides the inherited method with a value that cannot be called: then the
  conversion throws. A number is printed in plain decimal, which is what JavaScript does
  for an integer of magnitude up to \<open>2^53\<close> (a double holds it exactly); larger
  integers, which JavaScript rounds and from \<open>10^21\<close> on prints with an exponent, and
  fractions are outside what \<open>JNum\<close> stands for.
\<close>

fun digits :: "nat \<Rightarrow> jsstring" where
  "digits n =
     (if n < 10 then [0x30 + of_nat n]
      else digits (n div 10) @ [0x30 + of_nat (n mod 10)])"

fun join_texts :: "(js_error + jsstring) list \<Rightarrow> js_error + jsstring" where
  "join_texts [] = Inr []"
| "join_texts [x] = x"
| "join_texts (x # y # ys) =
     (case x of
        Inl e \<Rightarrow> Inl e
      | Inr a \<Rightarrow> (case join_texts (y # ys) of
                   Inl e \<Rightarrow> Inl e
                 | Inr b \<Rightarrow> Inr (a @ js '','' @ b)))"

fun to_string :: "jsval \<Rightarrow> js_error + jsstring" where
  "to_string JUndefined = Inr (js ''undefined'')"
| "to_string JNull = Inr (js ''null'')"
| "to_string (JBool b) = Inr (if b then js ''true'' else js ''false'')"
| "to_string (JNum n) = Inr (if n < 0 then js ''-'' @ digits (nat (- n)) else digits (nat n))"
| "to_string (JStr s) = Inr s"
| "to_string (JArr xs) =
     join_texts (map (\<lambda>x. if x = JUndefined \<or> x = JNull then Inr [] else to_string x) xs)"
| "to_string (JObj kvs) =
     (if js ''toString'' \<in> fst ` set kvs
      then Inl (TypeError (js ''Cannot convert object to primitive value''))
      else Inr (js ''[object Object]''))"

section \<open>Requests and responses\<close>

text \<open>
  \<^verbatim>\<open>const API_BASE = import.meta.env.VITE_API_BASE || "http://localhost:8000"\<close>: the
  variable is a string or is not set.
\<close>

definition API_BASE :: "jsstring option \<Rightarrow> jsstring" where
  "API_BASE env =
     (case env of
        Some v \<Rightarrow> if v \<noteq> [] then v else js ''http://localhost:8000''
      | None \<Rightarrow> js ''http://localhost:8000'')"

text \<open>
  A request as the handlers build it. The serializer is the platform's, so a value
  handed to \<^verbatim>\<open>JSON.stringify\<close> is kept as the value: \<open>FormJson v\<close> is the form field
  whose text is \<^verbatim>\<open>JSON.stringify(v)\<close> and \<open>JsonBody v\<close> is the body
  \<^verbatim>\<open>JSON.stringify(v)\<close>.
\<close>

datatype form_value = FormFile file_obj | FormText jsstring | FormJson jsval

datatype body = FormData "(jsstring \<times> form_value) list" | JsonBody jsval

record request =
  req_method :: jsstring
  req_url :: jsstring
  req_headers :: "(jsstring \<times> jsstring) list"
  req_body :: body

text \<open>
  A response: its \<^verbatim>\<open>ok\<close> flag and what each way of reading the body gives
  (\<^verbatim>\<open>res.text()\<close>, \<^verbatim>\<open>res.json()\<close>, \<^verbatim>\<open>res.blob()\<close>); a reader that rejects, as
  \<^verbatim>\<open>json()\<close> does on a body that is not JSON, is \<open>Inl\<close>. \<^verbatim>\<open>fetch\<close> itself either
  rejects (no connection, timeout, abort) or resolves with a response, whatever its
  HTTP status.
\<close>

record response =
  resp_ok :: bool
  resp_text :: "js_error + jsstring"
  resp_json :: "js_error + jsval"
  resp_blob :: "js_error + 8 word list"

datatype fetched = Rejects js_error | Resolves response

type_synonym network = "request \<Rightarrow> fetched"

text \<open>
  What running a handler to its end gives: how its promise settled, what it did to the
  outside (requests sent, files handed to the browser as downloads, in order), and the
  state cells after it.
\<close>

datatype settled = Fulfilled | Thrown js_error

datatype effect = Fetch request | Download jsstring "8 word list"

record run =
  completion :: settled
  effects :: "effect list"
  final_state :: app_state

definition idle :: "app_state \<Rightarrow> run" where
  "idle s = \<lparr>completion = Fulfilled, effects = [], final_state = s\<rparr>"

section \<open>Parsing and refining requirements\<close>

definition parse_form :: "app_state \<Rightarrow> bool \<Rightarrow> (jsstring \<times> form_value) list" where
  "parse_form s withFeedback =
     (case file_cell s of Some f \<Rightarrow> [(js ''file'', FormFile f)] | None \<Rightarrow> [])
     @ (if withFeedback \<and> reqFeedback s \<noteq> []
        then [(js ''feedback'', FormText (reqFeedback s)),
              (js ''existing_requirements'', FormJson (requirements s))]
        else [])"

definition parse_request :: "jsstring option \<Rightarrow> app_state \<Rightarrow> bool \<Rightarrow> request" where
  "parse_request env s withFeedback =
     \<lparr>req_method = js ''POST'', req_url = API_BASE env @ js ''/requirements/parse'',
      req_headers = [], req_body = FormData (parse_form s withFeedback)\<rparr>"

text \<open>
  The \<^verbatim>\<open>try\<close> block after the request is built: the fault it throws, if any, and the
  state with the setters it reached applied.
\<close>

definition parse_try :: "network \<Rightarrow> request \<Rightarrow> bool \<Rightarrow> app_state \<Rightarrow> js_error option \<times> app_state" where
  "parse_try net rq withFeedback s =
     (case net rq of
        Rejects e \<Rightarrow> (Some e, s)
      | Resolves res \<Rightarrow>
          if \<not> resp_ok res then
            (case resp_text res of
               Inl e \<Rightarrow> (Some e, s)
             | Inr errorText \<Rightarrow>
                 (Some (Error (if errorText \<noteq> [] then errorText
                               else js ''Failed to parse requirements'')), s))
          else
            (case resp_json res of
               Inl e \<Rightarrow> (Some e, s)
             | Inr data \<Rightarrow>
                 (case get_prop data (js ''raw_text'') of
                    Inl e \<Rightarrow> (Some e, s)
                  | Inr raw \<Rightarrow>
                      let s1 = s\<lparr>rawText := js_or raw (rawText s)\<rparr> in
                      (case get_prop data (js ''requirements'') of
                         Inl e \<Rightarrow> (Some e, s1)
                       | Inr reqs \<Rightarrow>
                           let s2 = s1\<lparr>requirements := js_or reqs (JArr []),
                                       status := (if withFeedback then js ''Requirements refined.''
                                                  else js ''Parsed.'')\<rparr>
                           in (None, if withFeedback then s2\<lparr>reqFeedback := []\<rparr> else s2)))))"

definition parseRequirements :: "jsstring option \<Rightarrow> network \<Rightarrow> bool \<Rightarrow> app_state \<Rightarrow> run" where
  "parseRequirements env net withFeedback s =
     (if file_cell s = None \<and> \<not> withFeedback then idle s
      else
        let s1 = s\<lparr>isParsing := True,
                   status := (if withFeedback then js ''Refining requirements with feedback...''
                              else js ''Parsing requirements...'')\<rparr>;
            rq = parse_request env s withFeedback;
            (thrown, s2) = parse_try net rq withFeedback s1;
            s3 = (case thrown of
                    None \<Rightarrow> s2
                  | Some e \<Rightarrow> s2\<lparr>status := js ''Parse failed: '' @ message e\<rparr>)
        in \<lparr>completion = Fulfilled, effects = [Fetch rq],
            final_state = s3\<lparr>isParsing := False\<rparr>\<rparr>)"

section \<open>Generating and refining test cases\<close>

definition template_fields :: "jsval" where
  "template_fields =
     JArr (map (\<lambda>f. JStr (js f))
       [''id'', ''title'', ''description'', ''priority'', ''type'', ''status'',
        ''preconditions'', ''steps'', ''expected_result'', ''test_data'',
        ''estimated_time'', ''automation_status'', ''component'', ''tags''])"

text \<open>\<^verbatim>\<open>x || null\<close> for a string cell.\<close>

definition or_null :: "jsstring \<Rightarrow> jsval" where
  "or_null x = (if x \<noteq> [] then JStr x else JNull)"

text \<open>\<^verbatim>\<open>x ? x.split(";").map((x) => x.trim()) : null\<close>\<close>

definition links :: "jsstring \<Rightarrow> jsval" where
  "links x = (if x \<noteq> [] then JArr (map (\<lambda>l. JStr (trim l)) (split 0x3B x)) else JNull)"

definition generate_context :: "app_state \<Rightarrow> jsval" where
  "generate_context s =
     JObj [(js ''requirements'', requirements s),
           (js ''app_link'', or_null (appLink s)),
           (js ''prototype_link'', or_null (prototypeLink s)),
           (js ''diagram_links'', links (diagramLinks s)),
           (js ''image_links'', links (imageLinks s)),
           (js ''notes'', JStr (js ''Generated via UI''))]"

definition generate_payload :: "app_state \<Rightarrow> bool \<Rightarrow> jsval" where
  "generate_payload s withFeedback =
     JObj [(js ''requirements'', requirements s),
           (js ''template'',
              JObj [(js ''name'', JStr (templateName s)),
                    (js ''format'', JStr (templateFormat s)),
                    (js ''fields'', template_fields)]),
           (js ''context'', generate_context s),
           (js ''feedback'',
              if withFeedback \<and> feedback s \<noteq> [] then JStr (feedback s) else JNull)]"

definition json_post :: "jsstring \<Rightarrow> jsval \<Rightarrow> request" where
  "json_post url payload =
     \<lparr>req_method = js ''POST'', req_url = url,
      req_headers = [(js ''Content-Type'', js ''application/json'')],
      req_body = JsonBody payload\<rparr>"

definition generate_request :: "jsstring option \<Rightarrow> app_state \<Rightarrow> bool \<Rightarrow> request" where
  "generate_request env s withFeedback =
     json_post (API_BASE env @ js ''/testcases/generate'') (generate_payload s withFeedback)"

definition generate_try :: "network \<Rightarrow> request \<Rightarrow> bool \<Rightarrow> app_state \<Rightarrow> js_error option \<times> app_state" where
  "generate_try net rq withFeedback s =
     (case net rq of
        Rejects e \<Rightarrow> (Some e, s)
      | Resolves res \<Rightarrow>
          (case resp_json res of
             Inl e \<Rightarrow> (Some e, s)
           | Inr data \<Rightarrow>
               (case get_prop data (js ''test_cases'') of
                  Inl e \<Rightarrow> (Some e, s)
                | Inr tcs \<Rightarrow>
                    let s1 = s\<lparr>testCases := js_or tcs (JArr []),
                                status := (if withFeedback then js ''Test cases refined.''
                                           else js ''Generated.'')\<rparr>
                    in (None, if withFeedback then s1\<lparr>feedback := []\<rparr> else s1))))"

text \<open>There is no \<^verbatim>\<open>catch\<close> here: a fault leaves through the promise, after \<^verbatim>\<open>finally\<close>.\<close>

definition generateTestCases :: "jsstring option \<Rightarrow> network \<Rightarrow> bool \<Rightarrow> app_state \<Rightarrow> run" where
  "generateTestCases env net withFeedback s =
     (let s1 = s\<lparr>isGenerating := True,
                 status := (if withFeedback then js ''Refining test cases with feedback...''
                            else js ''Generating test cases...'')\<rparr>;
          rq = generate_request env s withFeedback;
          (thrown, s2) = generate_try net rq withFeedback s1
      in \<lparr>completion = (case thrown of None \<Rightarrow> Fulfilled | Some e \<Rightarrow> Thrown e),
          effects = [Fetch rq],
          final_state = s2\<lparr>isGenerating := False\<rparr>\<rparr>)"

section \<open>The feedback buttons\<close>

text \<open>
  The two refine handlers are called with \<^verbatim>\<open>true\<close> from one place each, the
  \<^verbatim>\<open>onClick\<close> of a button whose \<^verbatim>\<open>disabled\<close> attribute is computed from the feedback
  text. A disabled button delivers no click, so nothing runs.
\<close>

definition reqFeedbackButton_disabled :: "app_state \<Rightarrow> bool" where
  "reqFeedbackButton_disabled s \<longleftrightarrow> trim (reqFeedback s) = [] \<or> isParsing s"

definition click_reqFeedbackButton :: "jsstring option \<Rightarrow> network \<Rightarrow> app_state \<Rightarrow> run" where
  "click_reqFeedbackButton env net s =
     (if reqFeedbackButton_disabled s then idle s else parseRequirements env net True s)"

definition feedbackButton_disabled :: "app_state \<Rightarrow> bool" where
  "feedbackButton_disabled s \<longleftrightarrow> trim (feedback s) = [] \<or> isGenerating s"

definition click_feedbackButton :: "jsstring option \<Rightarrow> network \<Rightarrow> app_state \<Rightarrow> run" where
  "click_feedbackButton env net s =
     (if feedbackButton_disabled s then idle s else generateTestCases env net True s)"

section \<open>Export\<close>

definition jira_payload :: "app_state \<Rightarrow> jsval" where
  "jira_payload s =
     JObj [(js ''project_key'', JStr (jiraProject s)),
           (js ''issue_type'', JStr (jiraIssueType s)),
           (js ''test_cases'', testCases s)]"

definition jira_request :: "jsstring option \<Rightarrow> app_state \<Rightarrow> request" where
  "jira_request env s = json_post (API_BASE env @ js ''/export/jira'') (jira_payload s)"

definition jira_try :: "network \<Rightarrow> request \<Rightarrow> app_state \<Rightarrow> js_error option \<times> app_state" where
  "jira_try net rq s =
     (case net rq of
        Rejects e \<Rightarrow> (Some e, s)
      | Resolves res \<Rightarrow>
          (case resp_json res of
             Inl e \<Rightarrow> (Some e, s)
           | Inr data \<Rightarrow>
               (case get_prop data (js ''status'') of
                  Inl e \<Rightarrow> (Some e, s)
                | Inr st \<Rightarrow>
                    (case to_string st of
                       Inl e \<Rightarrow> (Some e, s)
                     | Inr a \<Rightarrow>
                         (case get_prop data (js ''message'') of
                            Inl e \<Rightarrow> (Some e, s)
                          | Inr m \<Rightarrow>
                              (case to_string m of
                                 Inl e \<Rightarrow> (Some e, s)
                               | Inr b \<Rightarrow> (None, s\<lparr>status := a @ js '': '' @ b\<rparr>)))))))"

text \<open>No \<^verbatim>\<open>catch\<close> here either.\<close>

definition exportToJira :: "jsstring option \<Rightarrow> network \<Rightarrow> app_state \<Rightarrow> run" where
  "exportToJira env net s =
     (let s1 = s\<lparr>isExporting := True, status := js ''Exporting to JIRA...''\<rparr>;
          rq = jira_request env s;
          (thrown, s2) = jira_try net rq s1
      in \<lparr>completion = (case thrown of None \<Rightarrow> Fulfilled | Some e \<Rightarrow> Thrown e),
          effects = [Fetch rq],
          final_state = s2\<lparr>isExporting := False\<rparr>\<rparr>)"

text \<open>
  \<^verbatim>\<open>const extensions = { csv: "csv", excel: "xlsx", json: "json" }\<close> and
  \<^verbatim>\<open>`test_cases.${extensions[format] || format}`\<close>, for a format that is not the name of
  a member of \<^verbatim>\<open>Object.prototype\<close> (the three callers pass \<^verbatim>\<open>"csv"\<close>, \<^verbatim>\<open>"excel"\<close>
  and \<^verbatim>\<open>"json"\<close>).
\<close>

definition extensions :: "(jsstring \<times> jsstring) list" where
  "extensions = [(js ''csv'', js ''csv''), (js ''excel'', js ''xlsx''), (js ''json'', js ''json'')]"

definition download_name :: "jsstring \<Rightarrow> jsstring" where
  "download_name format =
     js ''test_cases.'' @ (case map_of extensions format of Some e \<Rightarrow> e | None \<Rightarrow> format)"

definition export_request :: "jsstring option \<Rightarrow> jsstring \<Rightarrow> app_state \<Rightarrow> request" where
  "export_request env format s =
     json_post (API_BASE env @ js ''/export/'' @ format) (JObj [(js ''test_cases'', testCases s)])"

text \<open>
  The download: an object URL for the blob, an anchor with that \<^verbatim>\<open>href\<close> and the
  \<^verbatim>\<open>download\<close> name, clicked and removed. It is one \<open>Download\<close> effect.
\<close>

definition export_try ::
  "network \<Rightarrow> request \<Rightarrow> jsstring \<Rightarrow> app_state \<Rightarrow> js_error option \<times> effect list \<times> app_state" where
  "export_try net rq format s =
     (case net rq of
        Rejects e \<Rightarrow> (Some e, [], s)
      | Resolves res \<Rightarrow>
          if \<not> resp_ok res then (Some (Error (js ''Export failed'')), [], s)
          else
            (case resp_blob res of
               Inl e \<Rightarrow> (Some e, [], s)
             | Inr blob \<Rightarrow>
                 (None, [Download (download_name format) blob],
                  s\<lparr>status := [0x2713] @ js '' Exported to '' @ toUpperCase format
                              @ js '' successfully''\<rparr>)))"

definition exportToFormat :: "jsstring option \<Rightarrow> network \<Rightarrow> jsstring \<Rightarrow> app_state \<Rightarrow> run" where
  "exportToFormat env net format s =
     (let s1 = s\<lparr>isExporting := True,
                 status := js ''Exporting to '' @ toUpperCase format @ js ''...''\<rparr>;
          rq = export_request env format s;
          (thrown, downloads, s2) = export_try net rq format s1;
          s3 = (case thrown of
                  None \<Rightarrow> s2
                | Some e \<Rightarrow> s2\<lparr>status := js ''Export failed: '' @ message e\<rparr>)
      in \<lparr>completion = Fulfilled, effects = Fetch rq # downloads,
          final_state = s3\<lparr>isExporting := False\<rparr>\<rparr>)"

section \<open>The table view\<close>

text \<open>
  The four cells of a table row that have a fallback: \<^verbatim>\<open>{tc.priority || "Medium"}\<close>,
  \<^verbatim>\<open>{tc.type || "Functional"}\<close>, \<^verbatim>\<open>{tc.status || "Draft"}\<close> and
  \<^verbatim>\<open>{tc.automation_status || "Manual"}\<close>. Each is the value React is given to draw.
  Three of them sit in a badge whose \<^verbatim>\<open>className\<close> is computed from the same field
  before the text is; \<open>class_fault\<close> is the fault that computation throws, if any, and
  then nothing is drawn.
\<close>

definition cell ::
  "(jsval \<Rightarrow> js_error option) \<Rightarrow> jsval \<Rightarrow> jsstring \<Rightarrow> jsstring \<Rightarrow> js_error + jsval" where
  "cell class_fault tc field fallback =
     (case get_prop tc field of
        Inl e \<Rightarrow> Inl e
      | Inr v \<Rightarrow>
          (case class_fault v of
             Some e \<Rightarrow> Inl e
           | None \<Rightarrow> Inr (js_or v (JStr fallback))))"

text \<open>
  \<^verbatim>\<open>getPriorityClass\<close> and \<^verbatim>\<open>getStatusClass\<close> are \<^verbatim>\<open>map[v] || ""\<close> for an object
  literal \<^verbatim>\<open>map\<close>: the value is turned into a property key, that is into its text, and
  this is the one step that can throw.
\<close>

definition key_fault :: "jsval \<Rightarrow> js_error option" where
  "key_fault v = (case to_string v of Inl e \<Rightarrow> Some e | Inr k \<Rightarrow> None)"

text \<open>
  \<^verbatim>\<open>tc.automation_status?.replace(/\s/g, "-").toLowerCase() || "manual"\<close>: the \<^verbatim>\<open>?.\<close>
  stops at \<^verbatim>\<open>null\<close> and \<^verbatim>\<open>undefined\<close>, a string has \<^verbatim>\<open>replace\<close>, and for every
  other value \<^verbatim>\<open>.replace\<close> is \<^verbatim>\<open>undefined\<close> and the call throws.
\<close>

fun replace_fault :: "jsval \<Rightarrow> js_error option" where
  "replace_fault JUndefined = None"
| "replace_fault JNull = None"
| "replace_fault (JStr s) = None"
| "replace_fault (JBool b) = Some (TypeError (js ''tc.automation_status?.replace is not a function''))"
| "replace_fault (JNum n) = Some (TypeError (js ''tc.automation_status?.replace is not a function''))"
| "replace_fault (JArr xs) = Some (TypeError (js ''tc.automation_status?.replace is not a function''))"
| "replace_fault (JObj kvs) = Some (TypeError (js ''tc.automation_status?.replace is not a function''))"

definition priority_cell :: "jsval \<Rightarrow> js_error + jsval" where
  "priority_cell tc = cell key_fault tc (js ''priority'') (js ''Medium'')"

text \<open>The type cell is plain text in the \<^verbatim>\<open>td\<close>, without a badge.\<close>

definition type_cell :: "jsval \<Rightarrow> js_error + jsval" where
  "type_cell tc = cell (\<lambda>v. None) tc (js ''type'') (js ''Functional'')"

definition status_cell :: "jsval \<Rightarrow> js_error + jsval" where
  "status_cell tc = cell key_fault tc (js ''status'') (js ''Draft'')"

definition automation_cell :: "jsval \<Rightarrow> js_error + jsval" where
  "automation_cell tc = cell replace_fault tc (js ''automation_status'') (js ''Manual'')"

section \<open>The validation gate\<close>

text \<open>
  Modelled from the spec: the result of a provider's \<open>produce\<close> or \<open>revise\<close>, a structured
  artifact or \<open>ParseFailure\<close> (section 4.3). The provider and the gate belong to the
  back end (\<^verbatim>\<open>backend/app/agents/test_case_agent.py\<close>), which is not among the sources.
\<close>

datatype 'a produced = ParseFailure | Artifact 'a

text \<open>
  Modelled from the spec: the result of \<open>critique\<close>, \<^verbatim>\<open>{approved: bool, deficiencies:
  sequence of string}\<close> (section 4.3).
\<close>

record critique =
  approved :: bool
  deficiencies :: "string list"

text \<open>Modelled from the spec: the two terminal states of the gate (section 4.2).\<close>

datatype gate_tag = Approved | MaxIterationsExceeded

text \<open>
  Modelled from the spec: the failure of a generation call whose content cannot be
  parsed, as the controller reports it (section 4.1).
\<close>

datatype gate_error = ProviderError

text \<open>Modelled from the spec: the provider calls the gate makes, for counting them.\<close>

datatype provider_call = Produce | Critique | Revise

text \<open>
  Modelled from the spec: the Validating and Regenerating cycle of section 4.2, with the
  number of cycles still allowed. The validator inspects the current artifact; on
  approval the gate ends \<open>Approved\<close>; on deficiencies the refiner regenerates the
  artifact from them and control returns to validating. When no cycle is left the gate
  returns the artifact it holds, the latest one, tagged \<open>MaxIterationsExceeded\<close>. A
  cycle is one \<open>critique\<close> and one \<open>revise\<close>, which gives the bound of section 5 on the
  calls, \<open>1 + 2 \<times> iteration_cap\<close>.
\<close>

fun validating ::
  "('a \<Rightarrow> critique) \<Rightarrow> ('a \<Rightarrow> string list \<Rightarrow> 'a produced) \<Rightarrow> nat \<Rightarrow> 'a
     \<Rightarrow> provider_call list \<times> (gate_error + 'a \<times> gate_tag)" where
  "validating validator refiner 0 a = ([], Inr (a, MaxIterationsExceeded))"
| "validating validator refiner (Suc k) a =
     (let c = validator a in
      if approved c then ([Critique], Inr (a, Approved))
      else
        (case refiner a (deficiencies c) of
           ParseFailure \<Rightarrow> ([Critique, Revise], Inl ProviderError)
         | Artifact a' \<Rightarrow>
             (let (calls, r) = validating validator refiner k a' in (Critique # Revise # calls, r))))"

text \<open>
  Modelled from the spec: the gate as \<open>Generate\<close> wraps it for test cases (section 4.2):
  one \<open>produce\<close>, then the cycle with \<open>iteration_cap\<close> cycles allowed.
\<close>

definition validation_gate ::
  "nat \<Rightarrow> ('i \<Rightarrow> 'a produced) \<Rightarrow> ('a \<Rightarrow> critique) \<Rightarrow> ('a \<Rightarrow> string list \<Rightarrow> 'a produced) \<Rightarrow> 'i
     \<Rightarrow> provider_call list \<times> (gate_error + 'a \<times> gate_tag)" where
  "validation_gate iteration_cap produce validator refiner input =
     (case produce input of
        ParseFailure \<Rightarrow> ([Produce], Inl ProviderError)
      | Artifact a \<Rightarrow>
          (let (calls, r) = validating validator refiner iteration_cap a in (Produce # calls, r)))"

text \<open>Modelled from the spec: the number of regeneration cycles, one per \<open>revise\<close> call.\<close>

definition cycles :: "provider_call list \<Rightarrow> nat" where
  "cycles calls = length (filter (\<lambda>c. c = Revise) calls)"

text \<open>
  Modelled from the spec: one regeneration, for a refiner that returns an artifact: the
  artifact revised from the validator's deficiencies.
\<close>

definition regenerate :: "('a \<Rightarrow> critique) \<Rightarrow> ('a \<Rightarrow> string list \<Rightarrow> 'a produced) \<Rightarrow> 'a \<Rightarrow> 'a" where
  "regenerate validator refiner a =
     (case refiner a (deficiencies (validator a)) of Artifact a' \<Rightarrow> a' | ParseFailure \<Rightarrow> a)"

section \<open>Sample inputs\<close>

text \<open>Concrete states, servers and providers on which the properties below are run.\<close>

definition unreachable :: network where
  "unreachable rq = Rejects (TypeError (js ''Failed to fetch''))"

definition blank_state :: app_state where
  "blank_state =
     initial_state\<lparr>requirements := JArr [JObj [(js ''id'', JStr (js ''REQ-1''))]],
                   testCases := JArr [JObj [(js ''id'', JStr (js ''TC-001''))]],
                   reqFeedback := [0x20, 0x09, 0x3000], feedback := []\<rparr>"

definition bare_case :: "(jsstring \<times> jsval) list" where
  "bare_case = [(js ''id'', JStr (js ''TC-001'')), (js ''title'', JStr (js ''Sign in''))]"

definition xlsx_response :: response where
  "xlsx_response =
     \<lparr>resp_ok = True, resp_text = Inr [0x50, 0x4B],
      resp_json = Inl (SyntaxError (js ''Unexpected token'')),
      resp_blob = Inr [0x50, 0x4B, 0x03, 0x04]\<rparr>"

definition xlsx_server :: network where
  "xlsx_server rq = Resolves xlsx_response"

definition always_deficient :: "nat \<Rightarrow> critique" where
  "always_deficient a = \<lparr>approved = False, deficiencies = [''missing negative test case'']\<rparr>"

definition next_draft :: "nat \<Rightarrow> string list \<Rightarrow> nat produced" where
  "next_draft a ds = Artifact (Suc a)"

text \<open>A session with one requirement, one test case and feedback typed in both boxes.\<close>

definition loaded_state :: app_state where
  "loaded_state =
     initial_state\<lparr>requirements := JArr [JObj [(js ''id'', JStr (js ''REQ-1'')),
                                             (js ''text'', JStr (js ''Users can sign in''))]],
                   testCases := JArr [JObj [(js ''id'', JStr (js ''TC-001'')),
                                          (js ''title'', JStr (js ''Sign in''))]],
                   appLink := js ''https://app.example'',
                   diagramLinks := js ''a.png; b.png'',
                   jiraProject := js ''QA'',
                   reqFeedback := js ''Split REQ-1'', feedback := js ''Add negative cases''\<rparr>"

text \<open>A server that answers every request with a non-OK status and a JSON error body.\<close>

definition rejecting_server :: network where
  "rejecting_server rq =
     Resolves \<lparr>resp_ok = False,
               resp_text = Inr ([0x7B, 0x22] @ js ''detail'' @ [0x22, 0x3A, 0x22]
                               @ js ''Generation failed'' @ [0x22, 0x7D]),
               resp_json = Inr (JObj [(js ''detail'', JStr (js ''Generation failed''))]),
               resp_blob = Inr []\<rparr>"

section \<open>Properties\<close>

subsection \<open>Navigation\<close>

lemma length_tabs: "length tabs = 6"
  by (simp add: tabs_def)

lemma tab_id_nth: "i < length tabs \<Longrightarrow> 0 \<le> tab_id (tabs ! i) \<and> tab_id (tabs ! i) \<le> 5"
proof -
  assume "i < length tabs"
  then have "i \<in> {0, 1, 2, 3, 4, 5}"
    by (auto simp: length_tabs)
  then show ?thesis
    by (auto simp: tabs_def)
qed

lemma nav_step_range:
  "0 \<le> activeTab s \<and> activeTab s \<le> 5 \<Longrightarrow>
   0 \<le> activeTab (nav_step s e) \<and> activeTab (nav_step s e) \<le> 5"
  using tab_id_nth by (cases e) (auto simp: goNext_def goPrev_def clickTab_def length_tabs)

lemma foldl_nav_range:
  "0 \<le> activeTab s \<and> activeTab s \<le> 5 \<Longrightarrow>
   0 \<le> activeTab (foldl nav_step s es) \<and> activeTab (foldl nav_step s es) \<le> 5"
proof (induction es arbitrary: s)
  case Nil
  then show ?case by simp
next
  case (Cons e es)
  from Cons.prems have "0 \<le> activeTab (nav_step s e) \<and> activeTab (nav_step s e) \<le> 5"
    by (rule nav_step_range)
  then show ?case
    using Cons.IH by simp
qed

text \<open>
  C8. The active tab starts at 0; after any sequence of \<open>goNext\<close>, \<open>goPrev\<close> and tab
  clicks it is an integer between 0 and 5; \<open>goNext\<close> on tab 5 and \<open>goPrev\<close> on tab 0
  leave the state as it is.
\<close>

theorem activeTab_in_range:
  "activeTab initial_state = 0
   \<and> 0 \<le> activeTab (navigate es) \<and> activeTab (navigate es) \<le> 5
   \<and> (activeTab s = 5 \<longrightarrow> goNext s = s)
   \<and> (activeTab s = 0 \<longrightarrow> goPrev s = s)"
proof -
  have init: "activeTab initial_state = 0"
    by (simp add: initial_state_def)
  then have "0 \<le> activeTab (navigate es) \<and> activeTab (navigate es) \<le> 5"
    unfolding navigate_def by (intro foldl_nav_range) simp
  moreover have "activeTab s = 5 \<longrightarrow> goNext s = s"
    by (simp add: goNext_def length_tabs)
  moreover have "activeTab s = 0 \<longrightarrow> goPrev s = s"
    by (simp add: goPrev_def)
  ultimately show ?thesis
    using init by blast
qed

theorem activeTab_in_range_witness:
  "activeTab (navigate [GoNext, TabClick 5, GoNext, GoPrev, TabClick 0, GoPrev]) \<in> {0..5}
   \<and> activeTab (clickTab (tabs ! 5) initial_state) = 5
   \<and> goNext (clickTab (tabs ! 5) initial_state) = clickTab (tabs ! 5) initial_state
   \<and> goPrev initial_state = initial_state"
  using activeTab_in_range
          [of "[GoNext, TabClick 5, GoNext, GoPrev, TabClick 0, GoPrev]"
              "clickTab (tabs ! 5) initial_state"]
        activeTab_in_range [of "[]" initial_state]
  by (simp add: clickTab_def tabs_def)

subsection \<open>Row expansion\<close>

text \<open>
  C9. Toggling a row twice gives back the boolean the row's expansion read as at the
  start, and one toggle leaves the entry of every other key as it was.
\<close>

theorem toggleRowExpansion_twice:
  "expanded (expandedRows (toggleRowExpansion k (toggleRowExpansion k s))) k
     = expanded (expandedRows s) k
   \<and> (k' \<noteq> k \<longrightarrow> expandedRows (toggleRowExpansion k s) k' = expandedRows s k')"
  by (simp add: toggleRowExpansion_def expanded_def)

theorem toggleRowExpansion_twice_witness:
  "expanded (expandedRows (toggleRowExpansion (js ''TC-001'')
      (toggleRowExpansion (js ''TC-001'') initial_state))) (js ''TC-001'') = False
   \<and> expanded (expandedRows (toggleRowExpansion (js ''TC-001'') initial_state)) (js ''TC-001'')
   \<and> js ''TC-002'' \<noteq> js ''TC-001''
   \<and> expandedRows (toggleRowExpansion (js ''TC-001'') initial_state) (js ''TC-002'') = None"
  using toggleRowExpansion_twice [of "js ''TC-001''" initial_state "js ''TC-002''"]
  by (simp add: toggleRowExpansion_def expanded_def initial_state_def js_def
      object_prototype_names_def)

subsection \<open>Parsing without a file\<close>

text \<open>
  C10. \<open>parseRequirements\<close> called without feedback while no file is selected sends no
  request and leaves every state cell as it was.
\<close>

theorem parseRequirements_without_file:
  "file_cell s = None \<longrightarrow>
     effects (parseRequirements env net False s) = []
     \<and> final_state (parseRequirements env net False s) = s
     \<and> completion (parseRequirements env net False s) = Fulfilled"
  by (simp add: parseRequirements_def idle_def)

theorem parseRequirements_without_file_witness:
  "file_cell initial_state = None
   \<and> effects (parseRequirements None unreachable False initial_state) = []
   \<and> final_state (parseRequirements None unreachable False initial_state) = initial_state"
  using parseRequirements_without_file [of initial_state None unreachable]
  by (simp add: initial_state_def)

subsection \<open>Blank feedback\<close>

lemma trim_blank: "\<forall>c \<in> set xs. isWhiteSpace c \<Longrightarrow> trim xs = []"
proof -
  assume ws: "\<forall>c \<in> set xs. isWhiteSpace c"
  then have d: "dropWhile isWhiteSpace xs = []"
    by (simp add: dropWhile_eq_Nil_conv)
  show ?thesis
    unfolding trim_def d by simp
qed

text \<open>
  C2. When the feedback text of a refine button is empty or consists of white space
  only, a click on the button sends no request and leaves the state, so the
  requirements and the test cases, as they were. This holds for the requirements
  button and for the test-case button.
\<close>

theorem blank_feedback_rejected:
  "((\<forall>c \<in> set (reqFeedback s). isWhiteSpace c) \<longrightarrow>
      effects (click_reqFeedbackButton env net s) = []
      \<and> final_state (click_reqFeedbackButton env net s) = s)
   \<and> ((\<forall>c \<in> set (feedback s). isWhiteSpace c) \<longrightarrow>
      effects (click_feedbackButton env net s) = []
      \<and> final_state (click_feedbackButton env net s) = s)"
  by (simp add: click_reqFeedbackButton_def click_feedbackButton_def
      reqFeedbackButton_disabled_def feedbackButton_disabled_def idle_def trim_blank)

theorem blank_feedback_rejected_witness:
  "reqFeedback blank_state = [0x20, 0x09, 0x3000]
   \<and> isWhiteSpace 0x20 \<and> isWhiteSpace 0x09 \<and> isWhiteSpace 0x3000
   \<and> effects (click_reqFeedbackButton None unreachable blank_state) = []
   \<and> final_state (click_reqFeedbackButton None unreachable blank_state) = blank_state
   \<and> feedback blank_state = []
   \<and> effects (click_feedbackButton None unreachable blank_state) = []
   \<and> final_state (click_feedbackButton None unreachable blank_state) = blank_state"
  using blank_feedback_rejected [of blank_state None unreachable]
  by (simp add: blank_state_def initial_state_def isWhiteSpace_def)

subsection \<open>Defaults of the table view\<close>

text \<open>
  C7. For a test case object without a \<open>priority\<close>, \<open>type\<close>, \<open>status\<close> or
  \<open>automation_status\<close> property, the table row shows \<open>Medium\<close>, \<open>Functional\<close>, \<open>Draft\<close>
  and \<open>Manual\<close> in the cell of the missing one.
\<close>

theorem table_defaults:
  "(map_of tc (js ''priority'') = None \<longrightarrow> priority_cell (JObj tc) = Inr (JStr (js ''Medium'')))
   \<and> (map_of tc (js ''type'') = None \<longrightarrow> type_cell (JObj tc) = Inr (JStr (js ''Functional'')))
   \<and> (map_of tc (js ''status'') = None \<longrightarrow> status_cell (JObj tc) = Inr (JStr (js ''Draft'')))
   \<and> (map_of tc (js ''automation_status'') = None \<longrightarrow>
        automation_cell (JObj tc) = Inr (JStr (js ''Manual'')))"
  by (simp add: priority_cell_def type_cell_def status_cell_def automation_cell_def cell_def
      key_fault_def js_or_def js_def)

theorem table_defaults_witness:
  "map_of bare_case (js ''priority'') = None
   \<and> map_of bare_case (js ''type'') = None
   \<and> map_of bare_case (js ''status'') = None
   \<and> map_of bare_case (js ''automation_status'') = None
   \<and> priority_cell (JObj bare_case) = Inr (JStr (js ''Medium''))
   \<and> type_cell (JObj bare_case) = Inr (JStr (js ''Functional''))
   \<and> status_cell (JObj bare_case) = Inr (JStr (js ''Draft''))
   \<and> automation_cell (JObj bare_case) = Inr (JStr (js ''Manual''))"
  using table_defaults [of bare_case]
  by (simp add: bare_case_def js_def)

subsection \<open>Export to a file\<close>

lemma effects_exportToFormat_ok:
  assumes "net (export_request env format s) = Resolves res" and "resp_ok res"
    and "resp_blob res = Inr blob"
  shows "effects (exportToFormat env net format s) =
           [Fetch (export_request env format s), Download (download_name format) blob]"
  using assms by (simp add: exportToFormat_def export_try_def Let_def)

lemma effects_exportToFormat_first:
  "\<exists>rest. effects (exportToFormat env net format s) = Fetch (export_request env format s) # rest"
  by (simp add: exportToFormat_def Let_def split_beta)

lemma download_names:
  "download_name (js ''csv'') = js ''test_cases.csv''"
  "download_name (js ''excel'') = js ''test_cases.xlsx''"
  "download_name (js ''json'') = js ''test_cases.json''"
  by (simp_all add: download_name_def extensions_def js_def)

text \<open>
  C5. For each of the formats \<open>csv\<close>, \<open>excel\<close> and \<open>json\<close>, \<open>exportToFormat\<close> first sends a
  POST to \<open>/export/\<close> followed by the format, whose JSON body is the object with the one
  property \<open>test_cases\<close> holding the current test cases; and when the server answers with
  an OK response whose body reads as a blob, the handler hands that blob to the browser
  as one download named \<open>test_cases.csv\<close>, \<open>test_cases.xlsx\<close> or \<open>test_cases.json\<close>.
\<close>

theorem export_download:
  "(format = js ''csv'' \<and> name = js ''test_cases.csv''
    \<or> format = js ''excel'' \<and> name = js ''test_cases.xlsx''
    \<or> format = js ''json'' \<and> name = js ''test_cases.json'') \<longrightarrow>
   (\<exists>rest. effects (exportToFormat env net format s) =
      Fetch \<lparr>req_method = js ''POST'', req_url = API_BASE env @ js ''/export/'' @ format,
             req_headers = [(js ''Content-Type'', js ''application/json'')],
             req_body = JsonBody (JObj [(js ''test_cases'', testCases s)])\<rparr> # rest)
   \<and> (net (export_request env format s) = Resolves res \<and> resp_ok res \<and> resp_blob res = Inr blob \<longrightarrow>
        effects (exportToFormat env net format s) =
          [Fetch (export_request env format s), Download name blob])"
proof (intro impI conjI)
  show "\<exists>rest. effects (exportToFormat env net format s) =
      Fetch \<lparr>req_method = js ''POST'', req_url = API_BASE env @ js ''/export/'' @ format,
             req_headers = [(js ''Content-Type'', js ''application/json'')],
             req_body = JsonBody (JObj [(js ''test_cases'', testCases s)])\<rparr> # rest"
    using effects_exportToFormat_first [of env net format s]
    by (simp add: export_request_def json_post_def)
next
  assume f: "format = js ''csv'' \<and> name = js ''test_cases.csv''
    \<or> format = js ''excel'' \<and> name = js ''test_cases.xlsx''
    \<or> format = js ''json'' \<and> name = js ''test_cases.json''"
  assume r: "net (export_request env format s) = Resolves res \<and> resp_ok res \<and> resp_blob res = Inr blob"
  from f have "download_name format = name"
    using download_names by auto
  with r show "effects (exportToFormat env net format s) =
          [Fetch (export_request env format s), Download name blob]"
    using effects_exportToFormat_ok [of net env format s res blob] by simp
qed

theorem export_download_witness:
  "xlsx_server (export_request None (js ''excel'') initial_state) = Resolves xlsx_response
   \<and> resp_ok xlsx_response
   \<and> resp_blob xlsx_response = Inr [0x50, 0x4B, 0x03, 0x04]
   \<and> effects (exportToFormat None xlsx_server (js ''excel'') initial_state) =
     [Fetch \<lparr>req_method = js ''POST'', req_url = js ''http://localhost:8000/export/excel'',
             req_headers = [(js ''Content-Type'', js ''application/json'')],
             req_body = JsonBody (JObj [(js ''test_cases'', JArr [])])\<rparr>,
      Download (js ''test_cases.xlsx'') [0x50, 0x4B, 0x03, 0x04]]"
  using export_download [of "js ''excel''" "js ''test_cases.xlsx''" None xlsx_server initial_state
      xlsx_response "[0x50, 0x4B, 0x03, 0x04]"]
  by (simp add: xlsx_server_def xlsx_response_def export_request_def json_post_def API_BASE_def
      initial_state_def js_def)

subsection \<open>The validation gate\<close>

lemma validating_cycles: "cycles (fst (validating validator refiner k a)) \<le> k"
proof (induction k arbitrary: a)
  case 0
  then show ?case by (simp add: cycles_def)
next
  case (Suc k)
  show ?case
  proof (cases "approved (validator a)")
    case True
    then show ?thesis by (simp add: cycles_def)
  next
    case False
    show ?thesis
    proof (cases "refiner a (deficiencies (validator a))")
      case ParseFailure
      with False show ?thesis by (simp add: cycles_def)
    next
      case (Artifact a')
      have "cycles (fst (validating validator refiner k a')) \<le> k"
        by (rule Suc.IH)
      with False Artifact show ?thesis
        by (simp add: cycles_def split_beta)
    qed
  qed
qed

lemma validating_calls: "length (fst (validating validator refiner k a)) \<le> 2 * k"
proof (induction k arbitrary: a)
  case 0
  then show ?case by simp
next
  case (Suc k)
  show ?case
  proof (cases "refiner a (deficiencies (validator a))")
    case ParseFailure
    then show ?thesis by (simp add: Let_def)
  next
    case (Artifact a')
    have "length (fst (validating validator refiner k a')) \<le> 2 * k"
      by (rule Suc.IH)
    with Artifact show ?thesis
      by (simp add: Let_def split_beta)
  qed
qed

lemma validating_never_approved:
  assumes "\<forall>a. \<not> approved (validator a)" and "\<forall>a ds. refiner a ds \<noteq> ParseFailure"
  shows "validating validator refiner k a =
           (concat (replicate k [Critique, Revise]),
            Inr ((regenerate validator refiner ^^ k) a, MaxIterationsExceeded))"
proof (induction k arbitrary: a)
  case 0
  then show ?case by simp
next
  case (Suc k)
  obtain a' where a': "refiner a (deficiencies (validator a)) = Artifact a'"
    using assms(2) by (cases "refiner a (deficiencies (validator a))") auto
  then have r: "regenerate validator refiner a = a'"
    by (simp add: regenerate_def)
  show ?case
    using assms(1) a' Suc.IH [of a'] r by (simp add: funpow_swap1)
qed

lemma cycles_replicate: "cycles (concat (replicate k [Critique, Revise])) = k"
  by (induction k) (simp_all add: cycles_def)

text \<open>
  C3. Whatever the provider does, the gate makes at most \<open>iteration_cap\<close> regenerations
  (and at most \<open>1 + 2 \<times> iteration_cap\<close> provider calls). With a validator that never
  approves and a refiner that always returns an artifact, the gate returns after exactly
  \<open>iteration_cap\<close> cycles, with the artifact of the last regeneration tagged
  \<open>MaxIterationsExceeded\<close>. The gate is a total function, so it returns for every input.
\<close>

theorem gate_iteration_cap:
  "cycles (fst (validation_gate iteration_cap produce validator refiner input)) \<le> iteration_cap
   \<and> length (fst (validation_gate iteration_cap produce validator refiner input))
        \<le> 1 + 2 * iteration_cap
   \<and> ((\<forall>a. \<not> approved (validator a)) \<and> (\<forall>a ds. refiner a ds \<noteq> ParseFailure)
        \<and> produce input = Artifact a0 \<longrightarrow>
          validation_gate iteration_cap produce validator refiner input =
            (Produce # concat (replicate iteration_cap [Critique, Revise]),
             Inr ((regenerate validator refiner ^^ iteration_cap) a0, MaxIterationsExceeded))
          \<and> cycles (fst (validation_gate iteration_cap produce validator refiner input))
              = iteration_cap)"
proof (intro conjI impI)
  show "cycles (fst (validation_gate iteration_cap produce validator refiner input)) \<le> iteration_cap"
  proof (cases "produce input")
    case ParseFailure
    then show ?thesis by (simp add: validation_gate_def cycles_def)
  next
    case (Artifact a)
    have "cycles (fst (validating validator refiner iteration_cap a)) \<le> iteration_cap"
      by (rule validating_cycles)
    with Artifact show ?thesis
      by (simp add: validation_gate_def cycles_def split_beta)
  qed
next
  show "length (fst (validation_gate iteration_cap produce validator refiner input))
          \<le> 1 + 2 * iteration_cap"
  proof (cases "produce input")
    case ParseFailure
    then show ?thesis by (simp add: validation_gate_def)
  next
    case (Artifact a)
    have "length (fst (validating validator refiner iteration_cap a)) \<le> 2 * iteration_cap"
      by (rule validating_calls)
    with Artifact show ?thesis
      by (simp add: validation_gate_def split_beta)
  qed
next
  assume h: "(\<forall>a. \<not> approved (validator a)) \<and> (\<forall>a ds. refiner a ds \<noteq> ParseFailure)
        \<and> produce input = Artifact a0"
  then have v: "validating validator refiner iteration_cap a0 =
           (concat (replicate iteration_cap [Critique, Revise]),
            Inr ((regenerate validator refiner ^^ iteration_cap) a0, MaxIterationsExceeded))"
    by (intro validating_never_approved) simp_all
  with h show g: "validation_gate iteration_cap produce validator refiner input =
            (Produce # concat (replicate iteration_cap [Critique, Revise]),
             Inr ((regenerate validator refiner ^^ iteration_cap) a0, MaxIterationsExceeded))"
    by (simp add: validation_gate_def)
  have "cycles (Produce # concat (replicate iteration_cap [Critique, Revise])) = iteration_cap"
    using cycles_replicate [of iteration_cap] by (simp add: cycles_def)
  with g show "cycles (fst (validation_gate iteration_cap produce validator refiner input))
              = iteration_cap"
    by simp
qed

theorem gate_iteration_cap_witness:
  "(\<forall>a. \<not> approved (always_deficient a))
   \<and> (\<forall>a ds. next_draft a ds \<noteq> ParseFailure)
   \<and> validation_gate 3 (\<lambda>i :: unit. Artifact 0) always_deficient next_draft () =
       ([Produce, Critique, Revise, Critique, Revise, Critique, Revise],
        Inr (3, MaxIterationsExceeded))
   \<and> cycles (fst (validation_gate 3 (\<lambda>i :: unit. Artifact 0) always_deficient next_draft ())) = 3"
  using gate_iteration_cap [of 3 "\<lambda>i :: unit. Artifact 0" always_deficient next_draft "()" 0]
  by (simp add: always_deficient_def next_draft_def regenerate_def numeral_3_eq_3 cycles_def)

subsection \<open>What a refine request carries\<close>






text \<open>The payload has these four properties and no other; the test cases are not in it.\<close>

lemma generate_payload_properties:
  "\<exists>kvs. generate_payload s withFeedback = JObj kvs
     \<and> map fst kvs = [js ''requirements'', js ''template'', js ''context'', js ''feedback'']"
  by (simp add: generate_payload_def)







subsection \<open>Failed calls\<close>

lemma get_prop_twice: "get_prop v p = Inr a \<Longrightarrow> \<exists>b. get_prop v q = Inr b"
  by (cases v) simp_all

lemma parse_try_thrown:
  assumes "parse_try net rq withFeedback s = (Some e, s')"
  shows "s' = s"
proof (cases "net rq")
  case (Rejects x)
  with assms show ?thesis by (simp add: parse_try_def)
next
  case (Resolves res)
  show ?thesis
  proof (cases "resp_ok res")
    case False
    with assms Resolves show ?thesis
      by (cases "resp_text res") (simp_all add: parse_try_def)
  next
    case True
    show ?thesis
    proof (cases "resp_json res")
      case (Inl x)
      with assms Resolves True show ?thesis by (simp add: parse_try_def)
    next
      case (Inr data)
      show ?thesis
      proof (cases "get_prop data (js ''raw_text'')")
        case (Inl x)
        with assms Resolves True Inr show ?thesis by (simp add: parse_try_def)
      next
        case raw: (Inr raw)
        then obtain reqs where "get_prop data (js ''requirements'') = Inr reqs"
          using get_prop_twice by blast
        with assms Resolves True Inr raw show ?thesis
          by (simp add: parse_try_def Let_def)
      qed
    qed
  qed
qed

lemma parseRequirements_failure:
  assumes "fst (parse_try net (parse_request env s withFeedback) withFeedback
            (s\<lparr>isParsing := True,
               status := (if withFeedback then js ''Refining requirements with feedback...''
                          else js ''Parsing requirements...'')\<rparr>)) = Some e"
    and "file_cell s \<noteq> None \<or> withFeedback"
  shows "completion (parseRequirements env net withFeedback s) = Fulfilled
     \<and> requirements (final_state (parseRequirements env net withFeedback s)) = requirements s
     \<and> testCases (final_state (parseRequirements env net withFeedback s)) = testCases s
     \<and> rawText (final_state (parseRequirements env net withFeedback s)) = rawText s
     \<and> status (final_state (parseRequirements env net withFeedback s))
         = js ''Parse failed: '' @ message e"
proof -
  let ?s1 = "s\<lparr>isParsing := True,
               status := (if withFeedback then js ''Refining requirements with feedback...''
                          else js ''Parsing requirements...'')\<rparr>"
  obtain s' where t: "parse_try net (parse_request env s withFeedback) withFeedback ?s1 = (Some e, s')"
    using assms(1) by (cases "parse_try net (parse_request env s withFeedback) withFeedback ?s1") simp
  then have "s' = ?s1"
    by (rule parse_try_thrown)
  with t have t': "parse_try net (parse_request env s withFeedback) withFeedback ?s1 = (Some e, ?s1)"
    by simp
  from assms(2) show ?thesis
    unfolding parseRequirements_def Let_def t' by auto
qed

text \<open>
  C1, at a failing call. The session holds one test case; the server answers the
  generate request with a non-OK status and the JSON body \<open>{"detail": ...}\<close>.
  \<open>generateTestCases\<close> does not look at \<^verbatim>\<open>res.ok\<close>: it reads \<^verbatim>\<open>data.test_cases\<close>, finds
  nothing, stores the empty list over the test cases and reports \<open>Generated.\<close> (through
  the refine button: \<open>Test cases refined.\<close>, and the feedback text is cleared).
  \<open>parseRequirements\<close>, given the same answer, keeps the requirements and reports
  \<open>Parse failed\<close> with the body's text.
\<close>

theorem generateTestCases_non_ok_response:
  "testCases loaded_state \<noteq> JArr []
   \<and> completion (generateTestCases None rejecting_server False loaded_state) = Fulfilled
   \<and> testCases (final_state (generateTestCases None rejecting_server False loaded_state)) = JArr []
   \<and> status (final_state (generateTestCases None rejecting_server False loaded_state))
       = js ''Generated.''
   \<and> completion (click_feedbackButton None rejecting_server loaded_state) = Fulfilled
   \<and> testCases (final_state (click_feedbackButton None rejecting_server loaded_state)) = JArr []
   \<and> status (final_state (click_feedbackButton None rejecting_server loaded_state))
       = js ''Test cases refined.''
   \<and> feedback (final_state (click_feedbackButton None rejecting_server loaded_state)) = []
   \<and> requirements (final_state (parseRequirements None rejecting_server True loaded_state))
       = requirements loaded_state
   \<and> status (final_state (parseRequirements None rejecting_server True loaded_state))
       = js ''Parse failed: '' @ [0x7B, 0x22] @ js ''detail'' @ [0x22, 0x3A, 0x22]
           @ js ''Generation failed'' @ [0x22, 0x7D]"
  by (simp add: generateTestCases_def generate_try_def click_feedbackButton_def
      parseRequirements_def parse_try_def parse_request_def
      feedbackButton_disabled_def trim_def isWhiteSpace_def
      rejecting_server_def loaded_state_def initial_state_def js_or_def Let_def js_def)

text \<open>When the server answers with \<open>{status, message}\<close>, the two are shown.\<close>

lemma exportToJira_structured:
  assumes "net (jira_request env s) = Resolves res"
    and "resp_json res = Inr (JObj [(js ''status'', JStr a), (js ''message'', JStr b)])"
  shows "completion (exportToJira env net s) = Fulfilled
     \<and> status (final_state (exportToJira env net s)) = a @ js '': '' @ b"
  using assms by (simp add: exportToJira_def jira_try_def Let_def js_def)

text \<open>
  C6, at a failing call. When \<^verbatim>\<open>fetch\<close> rejects, \<open>exportToJira\<close> has no \<^verbatim>\<open>catch\<close>: its
  promise is rejected with the fetch error and the status stays at \<open>Exporting to
  JIRA...\<close>. \<open>exportToFormat\<close>, in the same situation, catches the error and reports
  \<open>Export failed\<close>.
\<close>

theorem exportToJira_fetch_rejected:
  "completion (exportToJira None unreachable loaded_state)
     = Thrown (TypeError (js ''Failed to fetch''))
   \<and> status (final_state (exportToJira None unreachable loaded_state)) = js ''Exporting to JIRA...''
   \<and> completion (exportToFormat None unreachable (js ''csv'') loaded_state) = Fulfilled
   \<and> status (final_state (exportToFormat None unreachable (js ''csv'') loaded_state))
       = js ''Export failed: Failed to fetch''"
  by (simp add: exportToJira_def jira_try_def exportToFormat_def export_try_def unreachable_def
      loaded_state_def initial_state_def Let_def js_def)


end
